theory Spec2Isabelle
  imports Main
begin

section \<open>The reactive core of socket-app: \<open>reactive\<close> and \<open>ref\<close>\<close>

text \<open>
  The theory embeds the two primitives of the state module: the class \<open>Reactive\<close> built
  by \<open>reactive(value)\<close> and the pair of proxies built by \<open>ref(value, callback)\<close>.
\<close>

datatype completion = Normal | Throw string

subsection \<open>\<open>Array.prototype.forEach\<close>\<close>

text \<open>
  \<open>xs.forEach(f)\<close> calls \<open>f\<close> on the elements from left to right. An exception thrown
  by \<open>f\<close> ends the iteration and leaves \<open>forEach\<close>; what the earlier calls did stays done.
  The elements visited are those present when \<open>forEach\<close> starts: elements pushed during
  the iteration are not visited.
\<close>

fun forEach :: "'a list \<Rightarrow> ('a \<Rightarrow> 's \<Rightarrow> 's \<times> completion) \<Rightarrow> 's \<Rightarrow> 's \<times> completion" where
  "forEach [] f s = (s, Normal)"
| "forEach (x # xs) f s =
     (case f x s of
        (s', Normal) \<Rightarrow> forEach xs f s'
      | (s', Throw e) \<Rightarrow> (s', Throw e))"

subsection \<open>Subscribers\<close>

text \<open>
  A subscriber is a function of the new value. What its body does to the container it
  is registered with is a program: it returns or throws; it reads \<open>value\<close> and goes on
  with what it has read; it writes \<open>value\<close> and goes on with the completion of this write
  (so it may catch the exception of the write or let it pass); it calls \<open>subscribe\<close> and
  goes on. A call of \<open>history()\<close> in a subscriber changes no field of the container and
  is left out.
\<close>

datatype 'v prog =
    Return
  | Raise string
  | Get "'v \<Rightarrow> 'v prog"
  | Put 'v "completion \<Rightarrow> 'v prog"
  | Register "('v \<Rightarrow> 'v prog) list" "'v prog"

type_synonym 'v subscriber = "'v \<Rightarrow> 'v prog"

text \<open>After a write in a subscriber that has no \<open>try\<close> around it.\<close>

fun uncaught :: "completion \<Rightarrow> 'v prog" where
  "uncaught Normal = Return"
| "uncaught (Throw e) = Raise e"

subsection \<open>The class \<open>Reactive\<close>\<close>

text \<open>
  The effects of the methods, in the order in which the statements perform them:
  the assignment to \<open>_value\<close>, a call \<open>sub(newValue)\<close>, a push onto \<open>_values\<close>,
  a push onto \<open>subscribers\<close>.
\<close>

datatype 'v effect =
    Stored 'v
  | Called "'v subscriber" 'v
  | Logged 'v
  | Registered "'v subscriber"

text \<open>
  The fields \<open>_value\<close>, \<open>_values\<close> and \<open>subscribers\<close> of the class, and the effects
  performed on the object so far (a ghost field). The array \<open>_values\<close> is created once,
  by the field initialiser, and is only pushed onto; \<open>p_values\<close> is what it holds.
\<close>

record 'v Reactive =
  p_value :: 'v
  p_values :: "'v list"
  subscribers :: "'v subscriber list"
  effects :: "'v effect list"

text \<open>\<open>reactive(value)\<close>: \<open>_values = []\<close>, \<open>_value = value\<close>, \<open>subscribers = []\<close>.\<close>

definition reactive :: "'v \<Rightarrow> 'v Reactive" where
  "reactive v = \<lparr>p_value = v, p_values = [], subscribers = [], effects = []\<rparr>"

text \<open>\<open>get value()\<close>.\<close>

definition get_value :: "'v Reactive \<Rightarrow> 'v" where
  "get_value r = p_value r"

text \<open>The arrow function \<open>(subscriber) => this.subscribers.push(subscriber)\<close>.\<close>

definition push_subscriber ::
  "'v subscriber \<Rightarrow> 'v Reactive \<Rightarrow> 'v Reactive \<times> completion" where
  "push_subscriber subscriber r =
     (r\<lparr>subscribers := subscribers r @ [subscriber],
        effects := effects r @ [Registered subscriber]\<rparr>, Normal)"

text \<open>\<open>subscribe(...subscribers)\<close>.\<close>

definition subscribe :: "'v subscriber list \<Rightarrow> 'v Reactive \<Rightarrow> 'v Reactive \<times> completion" where
  "subscribe subs r = forEach subs push_subscriber r"

text \<open>
  The body of a subscriber, run on the container; \<open>setter\<close> is what a write of \<open>value\<close>
  does.
\<close>

primrec exec ::
  "('v \<Rightarrow> 'v Reactive \<Rightarrow> 'v Reactive \<times> completion) \<Rightarrow> 'v prog \<Rightarrow> 'v Reactive
     \<Rightarrow> 'v Reactive \<times> completion" where
  "exec setter Return = (\<lambda>r. (r, Normal))"
| "exec setter (Raise e) = (\<lambda>r. (r, Throw e))"
| "exec setter (Get k) = (\<lambda>r. exec setter (k (get_value r)) r)"
| "exec setter (Put x k) = (\<lambda>r. case setter x r of (r', c) \<Rightarrow> exec setter (k c) r')"
| "exec setter (Register fs k) = (\<lambda>r. exec setter k (fst (subscribe fs r)))"

text \<open>The arrow function \<open>(sub) => sub(newValue)\<close> of the setter.\<close>

definition notify ::
  "('v \<Rightarrow> 'v Reactive \<Rightarrow> 'v Reactive \<times> completion) \<Rightarrow> 'v \<Rightarrow> 'v subscriber \<Rightarrow> 'v Reactive
     \<Rightarrow> 'v Reactive \<times> completion" where
  "notify setter newValue sub r =
     exec setter (sub newValue) (r\<lparr>effects := effects r @ [Called sub newValue]\<rparr>)"

text \<open>
  \<open>set value(newValue)\<close>: the assignment, then \<open>this.subscribers.forEach(...)\<close>, then
  \<open>this._values.push(this._value)\<close>, which reads \<open>_value\<close> again. An exception of
  \<open>forEach\<close> leaves the setter before the push.

  A subscriber may write \<open>value\<close>, which runs the setter inside the setter. The first
  argument is the number of nested calls of the setter that the call stack still has room
  for; when there is none, the call throws a \<open>RangeError\<close>.
\<close>

primrec set_value :: "nat \<Rightarrow> 'v \<Rightarrow> 'v Reactive \<Rightarrow> 'v Reactive \<times> completion" where
  "set_value 0 = (\<lambda>newValue r. (r, Throw ''RangeError''))"
| "set_value (Suc n) = (\<lambda>newValue r.
     (let r1 = r\<lparr>p_value := newValue, effects := effects r @ [Stored newValue]\<rparr> in
      case forEach (subscribers r1) (notify (set_value n) newValue) r1 of
        (r2, Throw e) \<Rightarrow> (r2, Throw e)
      | (r2, Normal) \<Rightarrow>
          (r2\<lparr>p_values := p_values r2 @ [p_value r2],
              effects := effects r2 @ [Logged (p_value r2)]\<rparr>, Normal)))"

subsection \<open>\<open>history()\<close> and the passing of time\<close>

text \<open>
  Time is a counter of milliseconds. A call of the async method \<open>history\<close> is suspended
  at \<open>await delay(1000)\<close> and is resumed, once the timer has fired, to run
  \<open>return this._values\<close>.
\<close>

text \<open>
  Modelled from the spec: the helper \<open>delay\<close> of \<open>./delay\<close> is missing from the sources.
  The spec describes a timer-based delay of a fixed minimum duration: \<open>delay ms\<close>, started
  at time \<open>now\<close>, is over at the time \<open>now + ms\<close> and not before.
\<close>

definition delay :: "nat \<Rightarrow> nat \<Rightarrow> nat" where
  "delay ms now = now + ms"

text \<open>
  A reference to an array. The only array that \<open>history\<close> can return is the array
  \<open>_values\<close> of the container.
\<close>

datatype array_ref = Values_array

text \<open>
  The promise returned by \<open>history()\<close>: waiting for its timer, due at the given time, or
  fulfilled with a reference to an array (not with a copy of it).
\<close>

datatype promise = Waiting nat | Fulfilled array_ref

text \<open>
  A container together with the clock, the promises handed out by \<open>history()\<close>, and the
  room on the call stack (see \<open>set_value\<close>).
\<close>

record 'v world =
  clock :: nat
  stack :: nat
  cell :: "'v Reactive"
  promises :: "promise list"

definition new_world :: "nat \<Rightarrow> 'v \<Rightarrow> 'v world" where
  "new_world n v = \<lparr>clock = 0, stack = n, cell = reactive v, promises = []\<rparr>"

text \<open>What an array holds now.\<close>

fun contents :: "'v world \<Rightarrow> array_ref \<Rightarrow> 'v list" where
  "contents w Values_array = p_values (cell w)"

text \<open>\<open>history()\<close> returns a new promise at once; its number is the second component.\<close>

definition history :: "'v world \<Rightarrow> 'v world \<times> nat" where
  "history w =
     (w\<lparr>promises := promises w @ [Waiting (delay 1000 (clock w))]\<rparr>, length (promises w))"

text \<open>The rest of \<open>history\<close>, run when the timer is over: \<open>return this._values\<close>.\<close>

fun resume :: "nat \<Rightarrow> promise \<Rightarrow> promise" where
  "resume t (Waiting due) = (if due \<le> t then Fulfilled Values_array else Waiting due)"
| "resume t (Fulfilled a) = Fulfilled a"

text \<open>
  What the holder of a promise finds: nothing while it is waiting, and afterwards the
  array it was fulfilled with, read when the holder looks at it.
\<close>

definition settled :: "'v world \<Rightarrow> nat \<Rightarrow> 'v list option" where
  "settled w p =
     (if p < length (promises w) then
        (case promises w ! p of
           Waiting due \<Rightarrow> None
         | Fulfilled a \<Rightarrow> Some (contents w a))
      else None)"

text \<open>What a caller of the container does: the statements of its script, one after the other.\<close>

datatype 'v action =
    Write 'v
  | Subscribe "'v subscriber list"
  | History
  | Advance nat

text \<open>
  One statement. An exception of a write is caught and the script goes on. While time
  passes nothing else happens, and the calls of \<open>history\<close> whose timer is over are
  resumed.
\<close>

fun step :: "'v action \<Rightarrow> 'v world \<Rightarrow> 'v world" where
  "step (Write v) w = w\<lparr>cell := fst (set_value (stack w) v (cell w))\<rparr>"
| "step (Subscribe fs) w = w\<lparr>cell := fst (subscribe fs (cell w))\<rparr>"
| "step History w = fst (history w)"
| "step (Advance d) w =
     w\<lparr>clock := clock w + d, promises := map (resume (clock w + d)) (promises w)\<rparr>"

fun run :: "'v action list \<Rightarrow> 'v world \<Rightarrow> 'v world" where
  "run [] w = w"
| "run (a # as) w = run as (step a w)"


subsection \<open>\<open>ref\<close>: values, objects and change events\<close>

text \<open>
  Property keys are strings or symbols. A value is a primitive or a reference to an
  object; an object is a plain object of the heap or a \<open>Proxy\<close> built by \<open>createProxy\<close>
  over a target object with a path. A proxy has no state of its own, so it is given by
  its target and its path (two proxies built from the same arguments are distinct objects
  in JavaScript and equal here). Numbers are integers here.
\<close>

datatype pkey = Key string | Symbol nat

datatype objref = Plain nat | Proxy objref "pkey list"

datatype jsval =
    Undefined
  | Null
  | Boolean bool
  | Number int
  | String string
  | Object objref

text \<open>
  A plain object: own data properties, and whether \<open>Object.seal\<close> has been applied to it
  (no property can be added or deleted, the values can still be written). Accessors and
  inherited properties are not modelled.
\<close>

record obj =
  props :: "pkey \<Rightarrow> jsval option"
  sealed :: bool

datatype OperationType = SET | DELETE

text \<open>
  What the \<open>target\<close> of an event can be: the handle that \<open>ref\<close> returns (the outer
  proxy), the object \<open>wrapper\<close> that the handle is built over, or the target of a trap of
  \<open>createProxy\<close>. The handle and \<open>wrapper\<close> are two objects: a write to a key of
  \<open>wrapper\<close> does not go through the handle's traps.
\<close>

datatype holder = Handle | Wrapper | Target objref

text \<open>\<open>interface ChangeEvent\<close>; \<open>newValue\<close> is absent from the events of a deletion.\<close>

record ChangeEvent =
  operation :: OperationType
  path :: "pkey list"
  target :: holder
  newValue :: "jsval option"
  oldValue :: jsval

text \<open>
  The state behind one call of \<open>ref\<close>: the heap of plain objects, the field \<open>value\<close> of
  \<open>wrapper\<close>, and the arguments of the calls of \<open>callback\<close> so far (a ghost field).
\<close>

record RefState =
  heap :: "nat \<Rightarrow> obj"
  wrapper_value :: jsval
  calls :: "ChangeEvent list"

text \<open>
  The callback of a Ref, as far as the code of \<open>ref\<close> sees it: it is called with an
  event and returns or throws.
\<close>

type_synonym RefCallback = "ChangeEvent \<Rightarrow> completion"

text \<open>\<open>isObject\<close>: \<open>val !== null && typeof val === 'object'\<close>.\<close>

fun isObject :: "jsval \<Rightarrow> bool" where
  "isObject (Object r) = True"
| "isObject v = False"

text \<open>\<open>callback(event)\<close>.\<close>

definition invoke :: "RefCallback \<Rightarrow> ChangeEvent \<Rightarrow> RefState \<Rightarrow> RefState \<times> completion" where
  "invoke cb ev s = (s\<lparr>calls := calls s @ [ev]\<rparr>, cb ev)"

subsection \<open>The traps of \<open>createProxy\<close>\<close>

text \<open>
  \<open>Reflect.get\<close> on a plain object reads the own property, \<open>undefined\<close> when there is
  none; on a proxy it runs the \<open>get\<close> trap. The trap returns its target for the key
  \<open>'value'\<close>, whatever the path; it wraps an object it has read in a new proxy with the
  path extended by the key.
\<close>

fun Reflect_get :: "(nat \<Rightarrow> obj) \<Rightarrow> objref \<Rightarrow> pkey \<Rightarrow> jsval"
  and get_trap :: "(nat \<Rightarrow> obj) \<Rightarrow> objref \<Rightarrow> pkey list \<Rightarrow> pkey \<Rightarrow> jsval" where
  "Reflect_get h (Plain a) k = (case props (h a) k of None \<Rightarrow> Undefined | Some v \<Rightarrow> v)"
| "Reflect_get h (Proxy t p) k = get_trap h t p k"
| "get_trap h t p k =
     (if k = Key ''value'' then Object t
      else (case Reflect_get h t k of
              Object r \<Rightarrow> Object (Proxy r (p @ [k]))
            | v \<Rightarrow> v))"

text \<open>
  \<open>Reflect.set\<close> on a plain object: a new property of a sealed object is refused
  (\<open>false\<close>), any other write is done (\<open>true\<close>). On a proxy it runs the \<open>set\<close> trap.
  The result is the boolean, or the exception of the callback.
\<close>

fun Reflect_set ::
    "RefCallback option \<Rightarrow> objref \<Rightarrow> pkey \<Rightarrow> jsval \<Rightarrow> RefState \<Rightarrow> RefState \<times> (string + bool)"
  and set_trap ::
    "RefCallback option \<Rightarrow> objref \<Rightarrow> pkey list \<Rightarrow> pkey \<Rightarrow> jsval \<Rightarrow> RefState
       \<Rightarrow> RefState \<times> (string + bool)" where
  "Reflect_set cb (Plain a) k v s =
     (if sealed (heap s a) \<and> props (heap s a) k = None then (s, Inr False)
      else (s\<lparr>heap := (heap s)(a := (heap s a)\<lparr>props := (props (heap s a))(k \<mapsto> v)\<rparr>)\<rparr>,
            Inr True))"
| "Reflect_set cb (Proxy t p) k v s = set_trap cb t p k v s"
| "set_trap cb t p k v s =
     (let old = Reflect_get (heap s) t k in
      case Reflect_set cb t k v s of
        (s1, Inl e) \<Rightarrow> (s1, Inl e)
      | (s1, Inr result) \<Rightarrow>
          (case cb of
             Some f \<Rightarrow>
               if result then
                 (case invoke f \<lparr>operation = SET, path = p @ [k], target = Target t,
                                 newValue = Some v, oldValue = old\<rparr> s1 of
                    (s2, Throw e) \<Rightarrow> (s2, Inl e)
                  | (s2, Normal) \<Rightarrow> (s2, Inr result))
               else (s1, Inr result)
           | None \<Rightarrow> (s1, Inr result)))"

text \<open>
  \<open>Reflect.deleteProperty\<close> on a plain object: \<open>true\<close> when the object has no such
  property (nothing is changed), \<open>false\<close> when it has one and is sealed, and otherwise the
  property is removed (\<open>true\<close>). On a proxy it runs the \<open>deleteProperty\<close> trap.
\<close>

fun Reflect_deleteProperty ::
    "RefCallback option \<Rightarrow> objref \<Rightarrow> pkey \<Rightarrow> RefState \<Rightarrow> RefState \<times> (string + bool)"
  and deleteProperty_trap ::
    "RefCallback option \<Rightarrow> objref \<Rightarrow> pkey list \<Rightarrow> pkey \<Rightarrow> RefState
       \<Rightarrow> RefState \<times> (string + bool)" where
  "Reflect_deleteProperty cb (Plain a) k s =
     (case props (heap s a) k of
        None \<Rightarrow> (s, Inr True)
      | Some v \<Rightarrow>
          if sealed (heap s a) then (s, Inr False)
          else (s\<lparr>heap := (heap s)(a := (heap s a)\<lparr>props := (props (heap s a))(k := None)\<rparr>)\<rparr>,
                Inr True))"
| "Reflect_deleteProperty cb (Proxy t p) k s = deleteProperty_trap cb t p k s"
| "deleteProperty_trap cb t p k s =
     (let old = Reflect_get (heap s) t k in
      case Reflect_deleteProperty cb t k s of
        (s1, Inl e) \<Rightarrow> (s1, Inl e)
      | (s1, Inr result) \<Rightarrow>
          (case cb of
             Some f \<Rightarrow>
               if result then
                 (case invoke f \<lparr>operation = DELETE, path = p @ [k], target = Target t,
                                 newValue = None, oldValue = old\<rparr> s1 of
                    (s2, Throw e) \<Rightarrow> (s2, Inl e)
                  | (s2, Normal) \<Rightarrow> (s2, Inr result))
               else (s1, Inr result)
           | None \<Rightarrow> (s1, Inr result)))"

subsection \<open>The handle returned by \<open>ref\<close>\<close>

text \<open>\<open>isObject(v) ? createProxy(v) : v\<close>, with the default path \<open>[]\<close>.\<close>

fun createProxy :: "jsval \<Rightarrow> jsval" where
  "createProxy (Object r) = Object (Proxy r [])"
| "createProxy v = v"

text \<open>\<open>ref(value, callback)\<close> over a heap: \<open>wrapper = {value: ...}\<close>.\<close>

definition ref :: "(nat \<Rightarrow> obj) \<Rightarrow> jsval \<Rightarrow> RefState" where
  "ref h v = \<lparr>heap = h, wrapper_value = createProxy v, calls = []\<rparr>"

text \<open>The \<open>get\<close> trap of the handle.\<close>

definition handle_get :: "RefState \<Rightarrow> pkey \<Rightarrow> jsval" where
  "handle_get s k = (if k = Key ''value'' then wrapper_value s else Undefined)"

text \<open>The \<open>set\<close> trap of the handle.\<close>

definition handle_set ::
  "RefCallback option \<Rightarrow> pkey \<Rightarrow> jsval \<Rightarrow> RefState \<Rightarrow> RefState \<times> (string + bool)" where
  "handle_set cb k v s =
     (if k = Key ''value'' then
        (let old = wrapper_value s;
             s1 = s\<lparr>wrapper_value := createProxy v\<rparr> in
         case cb of
           Some f \<Rightarrow>
             (case invoke f \<lparr>operation = SET, path = [], target = Wrapper,
                             newValue = Some (wrapper_value s1), oldValue = old\<rparr> s1 of
                (s2, Throw e) \<Rightarrow> (s2, Inl e)
              | (s2, Normal) \<Rightarrow> (s2, Inr True))
         | None \<Rightarrow> (s1, Inr True))
      else (s, Inr False))"

text \<open>
  Whether the code that holds an assignment is strict. The code of a module is always
  strict.
\<close>

datatype mode = Sloppy | Strict

text \<open>
  The statement \<open>handle[k] = v\<close> in code of the given mode. It runs the \<open>set\<close> trap of
  the handle. When the trap returns false, the assignment throws a \<open>TypeError\<close> in
  strict code and goes on silently in code that is not strict.
\<close>

definition assign_handle ::
  "mode \<Rightarrow> RefCallback option \<Rightarrow> pkey \<Rightarrow> jsval \<Rightarrow> RefState \<Rightarrow> RefState \<times> completion" where
  "assign_handle m cb k v s =
     (case handle_set cb k v s of
        (s', Inl e) \<Rightarrow> (s', Throw e)
      | (s', Inr ok) \<Rightarrow> (s', if ok \<or> m = Sloppy then Normal else Throw ''TypeError''))"

subsection \<open>Example callers\<close>

text \<open>
  Subscribers of a container of integers: one that returns, one that throws, and one
  that writes 0 when it is called with a negative value.
\<close>

definition quiet :: "int subscriber" where
  "quiet v = Return"

definition thrower :: "int subscriber" where
  "thrower v = Raise ''boom''"

definition clamp :: "int subscriber" where
  "clamp v = (if v < 0 then Put 0 uncaught else Return)"

text \<open>Callbacks of a Ref: one that returns, one that throws.\<close>

definition silent :: RefCallback where
  "silent ev = Normal"

definition failing :: RefCallback where
  "failing ev = Throw ''boom''"

text \<open>
  A heap: object 0 is \<open>{a: <object 1>}\<close>, object 1 is \<open>{b: 1}\<close>, object 2 is
  \<open>{value: 5}\<close>, object 3 is \<open>{c: <object 2>}\<close>, object 4 is the sealed object
  \<open>{d: 1}\<close>; every other object is empty.
\<close>

definition empty_obj :: obj where
  "empty_obj = \<lparr>props = Map.empty, sealed = False\<rparr>"

definition nested_heap :: "nat \<Rightarrow> obj" where
  "nested_heap =
     (\<lambda>a. empty_obj)
       (0 := \<lparr>props = [Key ''a'' \<mapsto> Object (Plain 1)], sealed = False\<rparr>,
        1 := \<lparr>props = [Key ''b'' \<mapsto> Number 1], sealed = False\<rparr>,
        2 := \<lparr>props = [Key ''value'' \<mapsto> Number 5], sealed = False\<rparr>,
        3 := \<lparr>props = [Key ''c'' \<mapsto> Object (Plain 2)], sealed = False\<rparr>,
        4 := \<lparr>props = [Key ''d'' \<mapsto> Number 1], sealed = True\<rparr>)"

subsection \<open>Lemmas about the container\<close>

lemma forEach_push:
  "forEach fs push_subscriber r =
     (r\<lparr>subscribers := subscribers r @ fs, effects := effects r @ map Registered fs\<rparr>, Normal)"
  by (induction fs arbitrary: r) (simp_all add: push_subscriber_def)

lemma forEach_notify_passive:
  assumes "\<forall>f\<in>set fs. \<forall>s. p_value s = v \<longrightarrow> exec setter (f v) s = (s, Normal)"
    and "p_value r = v"
  shows "forEach fs (notify setter v) r =
           (r\<lparr>effects := effects r @ map (\<lambda>f. Called f v) fs\<rparr>, Normal)"
  using assms
proof (induction fs arbitrary: r)
  case Nil
  then show ?case by simp
next
  case (Cons f fs)
  let ?r = "r\<lparr>effects := effects r @ [Called f v]\<rparr>"
  from Cons.prems have "exec setter (f v) ?r = (?r, Normal)" by simp
  then have n: "notify setter v f r = (?r, Normal)" by (simp add: notify_def)
  from Cons.prems have "forEach fs (notify setter v) ?r =
      (?r\<lparr>effects := effects ?r @ map (\<lambda>f. Called f v) fs\<rparr>, Normal)"
    by (intro Cons.IH) simp_all
  with n show ?case by simp
qed












subsection \<open>The claims about the container\<close>

text \<open>
  C3, evaluated where the code departs from it. With the subscribers \<open>thrower\<close> and
  \<open>quiet\<close> registered in this order, the write of 5 calls \<open>thrower\<close> and ends with its
  exception: \<open>quiet\<close> is not called, and the exception leaves the write.
\<close>

theorem later_subscriber_not_called:
  "set_value (Suc n) 5 (fst (subscribe [thrower, quiet] (reactive 0))) =
     (\<lparr>p_value = 5, p_values = [], subscribers = [thrower, quiet],
       effects = [Registered thrower, Registered quiet, Stored 5, Called thrower 5]\<rparr>,
      Throw ''boom'')"
  by (simp add: subscribe_def push_subscriber_def reactive_def notify_def thrower_def)

text \<open>
  C8, as amended. A write, also of a value equal to the current one, during which every
  subscriber returns and leaves the container as it is, first stores the new value, then
  calls every registered subscriber with it, in the order of registration, and only then
  appends the value to the log: the calls of the subscribers come before the append.
\<close>

theorem set_value_order:
  assumes "\<forall>f\<in>set (subscribers r). \<forall>s. p_value s = v \<longrightarrow> exec (set_value n) (f v) s = (s, Normal)"
  shows "set_value (Suc n) v r =
           (r\<lparr>p_value := v, p_values := p_values r @ [v],
              effects := effects r @ Stored v # map (\<lambda>f. Called f v) (subscribers r) @ [Logged v]\<rparr>,
            Normal)"
proof -
  let ?r1 = "r\<lparr>p_value := v, effects := effects r @ [Stored v]\<rparr>"
  from assms have "forEach (subscribers r) (notify (set_value n) v) ?r1 =
      (?r1\<lparr>effects := effects ?r1 @ map (\<lambda>f. Called f v) (subscribers r)\<rparr>, Normal)"
    by (intro forEach_notify_passive) simp_all
  then show ?thesis by (simp add: Let_def)
qed

theorem set_value_order_witness:
  "set_value (Suc 0) 5 \<lparr>p_value = 5, p_values = [5], subscribers = [quiet, clamp], effects = []\<rparr> =
     (\<lparr>p_value = 5, p_values = [5, 5], subscribers = [quiet, clamp],
       effects = [Stored 5, Called quiet 5, Called clamp 5, Logged 5]\<rparr>, Normal)"
proof -
  have h: "\<forall>f\<in>set (subscribers
              \<lparr>p_value = 5, p_values = [5], subscribers = [quiet, clamp], effects = []\<rparr>).
            \<forall>s. p_value s = 5 \<longrightarrow> exec (set_value 0) (f 5) s = (s, Normal)"
    by (simp add: quiet_def clamp_def)
  from set_value_order [OF h] h show ?thesis by simp
qed

text \<open>
  The claim C8 as it is written fails: in a write of 5 to a container with the subscriber
  \<open>quiet\<close>, the call of the subscriber comes before the push onto the log.
\<close>

theorem append_after_notification:
  "effects (fst (set_value (Suc 0) 5 (fst (subscribe [quiet] (reactive 0))))) =
     [Registered quiet, Stored 5, Called quiet 5, Logged 5]"
  by (simp add: subscribe_def push_subscriber_def reactive_def notify_def quiet_def)

text \<open>
  C10. \<open>subscribe(f1, ..., fn)\<close> appends the functions to the end of the list of
  subscribers in the order of the arguments and does nothing else: its only effects are
  these pushes (no subscriber is called), and the current value and the log are unchanged.
\<close>

theorem subscribe_appends:
  "subscribe fs r =
     (r\<lparr>subscribers := subscribers r @ fs, effects := effects r @ map Registered fs\<rparr>, Normal)
   \<and> p_value (fst (subscribe fs r)) = p_value r
   \<and> p_values (fst (subscribe fs r)) = p_values r"
  by (simp add: subscribe_def forEach_push)

text \<open>
  C4, evaluated where the code departs from it. A write during which a subscriber throws
  stores the value and does not append it to the log: after the write of 1 the container
  holds 1 and \<open>history()\<close> is fulfilled with the empty log. A write during which a
  subscriber writes again appends the value stored last, twice: after the write of -5 with
  the subscriber \<open>clamp\<close>, which writes 0, \<open>history()\<close> is fulfilled with \<open>[0, 0]\<close>.
\<close>

theorem written_value_missing_from_history:
  "settled (run [Subscribe [thrower], Write 1, History, Advance 1000] (new_world (Suc (Suc 0)) 0)) 0
     = Some []
   \<and> get_value (cell (run [Subscribe [thrower], Write 1, History, Advance 1000]
                        (new_world (Suc (Suc 0)) 0))) = 1
   \<and> settled (run [Subscribe [clamp], Write (- 5), History, Advance 1000] (new_world (Suc (Suc 0)) 0)) 0
     = Some [0, 0]"
  by (simp add: new_world_def reactive_def history_def delay_def subscribe_def settled_def
      push_subscriber_def notify_def thrower_def clamp_def get_value_def)




subsection \<open>The claims about the Ref\<close>

text \<open>
  C1. For a Ref over \<open>{a: {b: 1}}\<close> with a callback, \<open>ref.value.a.b = 2\<close> reads
  \<open>value\<close> from the handle, reads \<open>a\<close> from the proxy it gets, and writes \<open>b\<close> on the
  proxy it gets then. The callback is called exactly once, with the operation SET, the
  path \<open>['a', 'b']\<close> from the root, the old value 1 and the new value 2; the object
  holds 2 afterwards.
\<close>

theorem nested_write_event:
  "handle_get (ref nested_heap (Object (Plain 0))) (Key ''value'') = Object (Proxy (Plain 0) [])
   \<and> Reflect_get nested_heap (Proxy (Plain 0) []) (Key ''a'') = Object (Proxy (Plain 1) [Key ''a''])
   \<and> calls (fst (Reflect_set (Some cb) (Proxy (Plain 1) [Key ''a'']) (Key ''b'') (Number 2)
                   (ref nested_heap (Object (Plain 0))))) =
       [\<lparr>operation = SET, path = [Key ''a'', Key ''b''], target = Target (Plain 1),
         newValue = Some (Number 2), oldValue = Number 1\<rparr>]
   \<and> Reflect_get (heap (fst (Reflect_set (Some cb) (Proxy (Plain 1) [Key ''a'']) (Key ''b'') (Number 2)
                   (ref nested_heap (Object (Plain 0)))))) (Plain 1) (Key ''b'') = Number 2"
  by (simp add: handle_get_def ref_def nested_heap_def invoke_def Let_def split: completion.split)

text \<open>
  C2, as amended. With a callback registered, a trap of the observation layer emits an
  event if and only if the \<open>Reflect\<close> operation it performs on its target reports
  success: when \<open>Reflect.set\<close> or \<open>Reflect.deleteProperty\<close> returns false the trap adds
  no event, and when it returns true the trap adds exactly one, after the operation. This
  includes the operations that report success and change nothing, such as the deletion of
  a key that the target does not have.
\<close>

theorem event_iff_reported:
  "(Reflect_set (Some f) t k v s = (s1, Inr ok) \<longrightarrow>
      calls (fst (set_trap (Some f) t p k v s)) =
        calls s1 @ (if ok then [\<lparr>operation = SET, path = p @ [k], target = Target t,
                                 newValue = Some v, oldValue = Reflect_get (heap s) t k\<rparr>] else [])
      \<and> heap (fst (set_trap (Some f) t p k v s)) = heap s1)
   \<and> (Reflect_deleteProperty (Some f) t k s = (s2, Inr ok') \<longrightarrow>
      calls (fst (deleteProperty_trap (Some f) t p k s)) =
        calls s2 @ (if ok' then [\<lparr>operation = DELETE, path = p @ [k], target = Target t,
                                 newValue = None, oldValue = Reflect_get (heap s) t k\<rparr>] else [])
      \<and> heap (fst (deleteProperty_trap (Some f) t p k s)) = heap s2)"
  by (auto simp: invoke_def Let_def split: completion.splits)

theorem event_iff_reported_witness:
  "snd (Reflect_set (Some silent) (Plain 4) (Key ''d'') (Number 7) (ref nested_heap (Object (Plain 4))))
     = Inr True
   \<and> calls (fst (set_trap (Some silent) (Plain 4) [] (Key ''d'') (Number 7)
                   (ref nested_heap (Object (Plain 4))))) =
       [\<lparr>operation = SET, path = [Key ''d''], target = Target (Plain 4),
         newValue = Some (Number 7), oldValue = Number 1\<rparr>]
   \<and> Reflect_deleteProperty (Some silent) (Plain 4) (Key ''d'') (ref nested_heap (Object (Plain 4)))
     = (ref nested_heap (Object (Plain 4)), Inr False)
   \<and> calls (fst (deleteProperty_trap (Some silent) (Plain 4) [] (Key ''d'')
                   (ref nested_heap (Object (Plain 4))))) = []"
proof -
  let ?s = "ref nested_heap (Object (Plain 4))"
  have h1: "Reflect_set (Some silent) (Plain 4) (Key ''d'') (Number 7) ?s =
      (fst (Reflect_set (Some silent) (Plain 4) (Key ''d'') (Number 7) ?s), Inr True)"
    by (simp add: ref_def nested_heap_def)
  have h2: "Reflect_deleteProperty (Some silent) (Plain 4) (Key ''d'') ?s = (?s, Inr False)"
    by (simp add: ref_def nested_heap_def)
  from event_iff_reported [of silent "Plain 4" "Key ''d''" "Number 7" ?s _ True "[]" ?s False]
    h1 h2
  show ?thesis by (simp add: ref_def nested_heap_def)
qed

text \<open>
  The claim C2 as it is written fails: object 1 has no key \<open>zz\<close>, its deletion through
  the proxy changes nothing, and the callback is called with a DELETE event.
\<close>

theorem delete_missing_key_emits:
  "deleteProperty_trap (Some silent) (Plain 1) [Key ''a''] (Key ''zz'') (ref nested_heap (Object (Plain 0)))
     = (ref nested_heap (Object (Plain 0))
          \<lparr>calls := [\<lparr>operation = DELETE, path = [Key ''a'', Key ''zz''], target = Target (Plain 1),
                     newValue = None, oldValue = Undefined\<rparr>]\<rparr>, Inr True)"
  by (simp add: ref_def nested_heap_def invoke_def silent_def)

text \<open>
  C5, as amended. With a callback registered, a write of \<open>value\<close> on the handle stores
  the new value (wrapped when it is an object) and calls the callback exactly once, with
  the operation SET, the empty path, the object \<open>wrapper\<close> that the handle is built over
  as target, the value stored before as old value and the value stored now as new value.
  The write reports true when the callback returns; an exception of the callback leaves
  the write.
\<close>

theorem handle_set_value:
  "handle_set (Some f) (Key ''value'') v s =
     (s\<lparr>wrapper_value := createProxy v,
        calls := calls s @ [\<lparr>operation = SET, path = [], target = Wrapper,
                             newValue = Some (createProxy v), oldValue = wrapper_value s\<rparr>]\<rparr>,
      case f \<lparr>operation = SET, path = [], target = Wrapper,
               newValue = Some (createProxy v), oldValue = wrapper_value s\<rparr> of
        Normal \<Rightarrow> Inr True | Throw e \<Rightarrow> Inl e)"
  by (simp add: handle_set_def invoke_def Let_def split: completion.splits)

text \<open>
  The claim C5 as it is written fails: the target of the event is \<open>wrapper\<close> and not the
  handle, and with a callback that throws the write does not report true.
\<close>

theorem root_write_target_and_failure:
  "handle_set (Some silent) (Key ''value'') (Number 2) (ref nested_heap (Number 1)) =
     (\<lparr>heap = nested_heap, wrapper_value = Number 2,
       calls = [\<lparr>operation = SET, path = [], target = Wrapper,
                 newValue = Some (Number 2), oldValue = Number 1\<rparr>]\<rparr>, Inr True)
   \<and> Wrapper \<noteq> Handle
   \<and> snd (handle_set (Some failing) (Key ''value'') (Number 2) (ref nested_heap (Number 1))) =
       Inl ''boom''"
  by (simp add: handle_set_def invoke_def ref_def silent_def failing_def)

text \<open>
  C6, as amended. For a key other than \<open>'value'\<close>, the \<open>set\<close> trap of the handle
  returns false without an exception and leaves everything as it was: the stored value,
  the heap, and the calls of the callback (no event). The write \<open>handle.k = x\<close> itself
  is silent in code that is not strict, and throws a \<open>TypeError\<close> in strict code.
\<close>

theorem handle_write_other_key:
  "k \<noteq> Key ''value'' \<Longrightarrow>
     handle_set cb k v s = (s, Inr False)
   \<and> assign_handle Sloppy cb k v s = (s, Normal)
   \<and> assign_handle Strict cb k v s = (s, Throw ''TypeError'')"
  by (simp add: handle_set_def assign_handle_def)

theorem handle_write_other_key_witness:
  "handle_set (Some silent) (Key ''foo'') (Number 1) (ref nested_heap (Object (Plain 0))) =
     (ref nested_heap (Object (Plain 0)), Inr False)
   \<and> assign_handle Sloppy (Some silent) (Key ''foo'') (Number 1) (ref nested_heap (Object (Plain 0))) =
     (ref nested_heap (Object (Plain 0)), Normal)
   \<and> handle_get (ref nested_heap (Object (Plain 0))) (Key ''value'') = Object (Proxy (Plain 0) [])"
  using handle_write_other_key
    [of "Key ''foo''" "Some silent" "Number 1" "ref nested_heap (Object (Plain 0))"]
  by (simp add: handle_get_def ref_def)

text \<open>
  The claim C6 as it is written fails: in strict code, as the code of every module is, the
  write \<open>ref.foo = 1\<close> throws.
\<close>

theorem strict_write_other_key_throws:
  "assign_handle Strict (Some silent) (Key ''foo'') (Number 1) (ref nested_heap (Object (Plain 0))) =
     (ref nested_heap (Object (Plain 0)), Throw ''TypeError'')"
  by (simp add: assign_handle_def handle_set_def)

text \<open>
  C7, as amended. At every layer of the observation, the root and the nested ones alike, a
  read of the key \<open>'value'\<close> returns the raw target of that layer; a property named
  \<open>value\<close> is not read through a proxy. A read of any other key returns the property of
  the target, wrapped with the extended path when it is an object.
\<close>

theorem get_trap_value_key:
  "get_trap h t p (Key ''value'') = Object t
   \<and> (k \<noteq> Key ''value'' \<longrightarrow>
        get_trap h t p k =
          (case Reflect_get h t k of Object r \<Rightarrow> Object (Proxy r (p @ [k])) | v \<Rightarrow> v))"
  by simp

theorem get_trap_value_key_witness:
  "get_trap nested_heap (Plain 2) [Key ''c''] (Key ''value'') = Object (Plain 2)
   \<and> get_trap nested_heap (Plain 3) [] (Key ''c'') = Object (Proxy (Plain 2) [Key ''c''])"
  using get_trap_value_key [of nested_heap "Plain 2" "[Key ''c'']"]
    get_trap_value_key [of nested_heap "Plain 3" "[]" "Key ''c''"]
  by (simp add: nested_heap_def)

text \<open>
  The claim C7 as it is written fails: for a Ref over \<open>{c: {value: 5}}\<close>, the read
  \<open>ref.value.c.value\<close> at the nested layer returns the raw object \<open>{value: 5}\<close> and
  not 5, the value of its property.
\<close>

theorem nested_value_key_returns_target:
  "handle_get (ref nested_heap (Object (Plain 3))) (Key ''value'') = Object (Proxy (Plain 3) [])
   \<and> Reflect_get nested_heap (Proxy (Plain 3) []) (Key ''c'') = Object (Proxy (Plain 2) [Key ''c''])
   \<and> Reflect_get nested_heap (Proxy (Plain 2) [Key ''c'']) (Key ''value'') = Object (Plain 2)
   \<and> Reflect_get nested_heap (Plain 2) (Key ''value'') = Number 5"
  by (simp add: handle_get_def ref_def nested_heap_def)

end
